theory Spec2Isabelle
  imports Complex_Main "HOL-Library.Word"
begin

section \<open>Federated Averaging: client update and server update\<close>

text \<open>
  A shallow embedding of \<^verbatim>\<open>tensorflow_federated/python/learning/federated_averaging.py\<close>.
  The Python code runs with program-order semantics (see the comment at the head of
  \<^verbatim>\<open>ClientFedAvg.__call__\<close>): every TensorFlow variable is a cell that is read and written
  in the order of the statements. The embedding passes the values of the variables
  explicitly; every exception is a value \<open>Inl e\<close> of a sum type.
\<close>

subsection \<open>Tensor elements\<close>

text \<open>
  A tensor element is a floating point number. Its special values are kept (\<open>PInf\<close>,
  \<open>NInf\<close>, \<open>NaN\<close>) and follow the IEEE rules; a finite value is an exact real number:
  rounding and the sign of zero are not modelled.
\<close>

datatype tfloat = Fin real | PInf | NInf | NaN

fun is_finite :: "tfloat \<Rightarrow> bool" where
  "is_finite (Fin x) = True"
| "is_finite PInf = False"
| "is_finite NInf = False"
| "is_finite NaN = False"

fun fl_neg :: "tfloat \<Rightarrow> tfloat" where
  "fl_neg (Fin x) = Fin (- x)"
| "fl_neg PInf = NInf"
| "fl_neg NInf = PInf"
| "fl_neg NaN = NaN"

fun fl_add :: "tfloat \<Rightarrow> tfloat \<Rightarrow> tfloat" where
  "fl_add (Fin x) (Fin y) = Fin (x + y)"
| "fl_add NaN y = NaN"
| "fl_add x NaN = NaN"
| "fl_add PInf NInf = NaN"
| "fl_add NInf PInf = NaN"
| "fl_add PInf y = PInf"
| "fl_add x PInf = PInf"
| "fl_add NInf y = NInf"
| "fl_add x NInf = NInf"

definition fl_sub :: "tfloat \<Rightarrow> tfloat \<Rightarrow> tfloat" where
  "fl_sub x y = fl_add x (fl_neg y)"

text \<open>The sign of an infinite product; an infinity times zero is \<open>NaN\<close>.\<close>

definition inf_times :: "bool \<Rightarrow> real \<Rightarrow> tfloat" where
  "inf_times positive x =
     (if x = 0 then NaN else if (0 < x) = positive then PInf else NInf)"

fun fl_mul :: "tfloat \<Rightarrow> tfloat \<Rightarrow> tfloat" where
  "fl_mul (Fin x) (Fin y) = Fin (x * y)"
| "fl_mul NaN y = NaN"
| "fl_mul x NaN = NaN"
| "fl_mul PInf (Fin y) = inf_times True y"
| "fl_mul NInf (Fin y) = inf_times False y"
| "fl_mul (Fin x) PInf = inf_times True x"
| "fl_mul (Fin x) NInf = inf_times False x"
| "fl_mul PInf PInf = PInf"
| "fl_mul NInf NInf = PInf"
| "fl_mul PInf NInf = NInf"
| "fl_mul NInf PInf = NInf"

subsection \<open>Tensors and the TensorFlow operations the module calls\<close>

text \<open>
  A tensor is its shape and its elements in row-major order. The exceptions of the
  module: a structure mismatch raised by \<^verbatim>\<open>nest\<close>, a shape mismatch raised by a
  TensorFlow operation, and an exception raised by a collaborator (the model's
  \<^verbatim>\<open>train_on_batch\<close>, the optimizer's \<^verbatim>\<open>apply_gradients\<close>).
\<close>

record tensor =
  shape :: "nat list"
  vals :: "tfloat list"

datatype error = StructureError | ShapeError | CollaboratorError string

definition bind_err :: "error + 'a \<Rightarrow> ('a \<Rightarrow> error + 'b) \<Rightarrow> error + 'b" where
  "bind_err r f = (case r of Inl e \<Rightarrow> Inl e | Inr x \<Rightarrow> f x)"

text \<open>\<^verbatim>\<open>tf.zeros_like(t)\<close>.\<close>

definition zeros_like :: "tensor \<Rightarrow> tensor" where
  "zeros_like t = \<lparr>shape = shape t, vals = map (\<lambda>_. Fin 0) (vals t)\<rparr>"

text \<open>
  \<^verbatim>\<open>tf.assign(ref, value)\<close>: the variable \<open>ref\<close> takes the value; the shapes must agree.
  The result is the new content of the variable.
\<close>

definition tf_assign :: "tensor \<Rightarrow> tensor \<Rightarrow> error + tensor" where
  "tf_assign ref v = (if shape ref = shape v then Inr v else Inl ShapeError)"

text \<open>
  \<^verbatim>\<open>tf.subtract(x, y)\<close> on tensors of one shape, elementwise. The module subtracts the
  value assigned to a variable from the later content of the same variable, so the two
  shapes agree there; broadcasting between different shapes is not modelled and is an
  error here.
\<close>

definition tf_subtract :: "tensor \<Rightarrow> tensor \<Rightarrow> error + tensor" where
  "tf_subtract x y =
     (if shape x = shape y
      then Inr \<lparr>shape = shape x, vals = map2 fl_sub (vals x) (vals y)\<rparr>
      else Inl ShapeError)"

text \<open>\<^verbatim>\<open>c * x\<close> for a Python float \<open>c\<close> and a tensor \<open>x\<close>.\<close>

definition scalar_mul :: "tfloat \<Rightarrow> tensor \<Rightarrow> tensor" where
  "scalar_mul c x = \<lparr>shape = shape x, vals = map (fl_mul c) (vals x)\<rparr>"

text \<open>\<^verbatim>\<open>tf.cast(n, tf.float32)\<close> of an \<^verbatim>\<open>int32\<close>.\<close>

definition tf_cast_float :: "32 word \<Rightarrow> tfloat" where
  "tf_cast_float n = Fin (real_of_int (sint n))"

subsection \<open>Nested structures\<close>

text \<open>
  The structures the module hands to \<^verbatim>\<open>nest\<close> are ordered dictionaries of named
  tensors (the trainable and the non-trainable weights), the pair \<^verbatim>\<open>ModelWeights\<close> of
  two of them, and \<^verbatim>\<open>ServerState\<close>. A dictionary is the list of its items in flattening
  order. Two dictionaries have the same structure when their keys agree; \<^verbatim>\<open>nest\<close> never
  looks at the shape of a leaf.
\<close>

type_synonym 'a odict = "(string \<times> 'a) list"

definition same_structure :: "'a odict \<Rightarrow> 'b odict \<Rightarrow> bool" where
  "same_structure a b = (map fst a = map fst b)"

definition flatten :: "'a odict \<Rightarrow> 'a list" where
  "flatten a = map snd a"

text \<open>\<^verbatim>\<open>nest.map_structure(f, a)\<close> for a function of one leaf.\<close>

definition map_structure :: "('a \<Rightarrow> 'b) \<Rightarrow> 'a odict \<Rightarrow> 'b odict" where
  "map_structure f a = map (\<lambda>(k, x). (k, f x)) a"

text \<open>Applying a fallible operation to the pairs of leaves, in order, up to the first error.\<close>

fun map_leaves :: "('a \<Rightarrow> 'b \<Rightarrow> error + 'c) \<Rightarrow> 'a list \<Rightarrow> 'b list \<Rightarrow> error + 'c list" where
  "map_leaves f (x # xs) (y # ys) =
     (case f x y of
        Inl e \<Rightarrow> Inl e
      | Inr z \<Rightarrow> (case map_leaves f xs ys of Inl e \<Rightarrow> Inl e | Inr zs \<Rightarrow> Inr (z # zs)))"
| "map_leaves f xs ys = Inr []"

text \<open>
  \<^verbatim>\<open>nest.map_structure(f, a, b)\<close> on two dictionaries: the structures are compared first,
  then \<open>f\<close> is applied leaf by leaf and the results are packed under the keys of \<open>a\<close>.
\<close>

definition map_structure2 ::
  "('a \<Rightarrow> 'b \<Rightarrow> error + 'c) \<Rightarrow> 'a odict \<Rightarrow> 'b odict \<Rightarrow> error + 'c odict" where
  "map_structure2 f a b =
     (if \<not> same_structure a b then Inl StructureError
      else bind_err (map_leaves f (flatten a) (flatten b)) (\<lambda>zs. Inr (zip (map fst a) zs)))"

record ModelWeights =
  trainable :: "tensor odict"
  non_trainable :: "tensor odict"

text \<open>Represents the state of the server carried between rounds.\<close>

record ServerState =
  model :: ModelWeights
  optimizer_state :: "tensor list"

text \<open>Whole-structure comparison of two \<^verbatim>\<open>ModelWeights\<close> and of two \<^verbatim>\<open>ServerState\<close>s.\<close>

definition same_structure_weights :: "ModelWeights \<Rightarrow> ModelWeights \<Rightarrow> bool" where
  "same_structure_weights a b =
     (same_structure (trainable a) (trainable b) \<and>
      same_structure (non_trainable a) (non_trainable b))"

definition same_structure_state :: "ServerState \<Rightarrow> ServerState \<Rightarrow> bool" where
  "same_structure_state a b =
     (same_structure_weights (model a) (model b) \<and>
      length (optimizer_state a) = length (optimizer_state b))"

text \<open>
  \<^verbatim>\<open>nest.map_structure(tf.assign, variables, values)\<close>: the whole structures are compared
  before any leaf is assigned; then every variable takes the value at its place. The
  result is the content of the variables afterwards.
\<close>

definition assign_odict :: "tensor odict \<Rightarrow> tensor odict \<Rightarrow> error + tensor odict" where
  "assign_odict variables values =
     bind_err (map_leaves tf_assign (flatten variables) (flatten values))
       (\<lambda>zs. Inr (zip (map fst variables) zs))"

definition assign_weights :: "ModelWeights \<Rightarrow> ModelWeights \<Rightarrow> error + ModelWeights" where
  "assign_weights variables values =
     (if \<not> same_structure_weights variables values then Inl StructureError
      else bind_err (assign_odict (trainable variables) (trainable values)) (\<lambda>t.
           bind_err (assign_odict (non_trainable variables) (non_trainable values)) (\<lambda>n.
           Inr \<lparr>trainable = t, non_trainable = n\<rparr>)))"

definition assign_state :: "ServerState \<Rightarrow> ServerState \<Rightarrow> error + ServerState" where
  "assign_state variables values =
     (if \<not> same_structure_state variables values then Inl StructureError
      else bind_err (assign_odict (trainable (model variables)) (trainable (model values))) (\<lambda>t.
           bind_err (assign_odict (non_trainable (model variables)) (non_trainable (model values))) (\<lambda>n.
           bind_err (map_leaves tf_assign (optimizer_state variables) (optimizer_state values)) (\<lambda>os.
           Inr \<lparr>model = \<lparr>trainable = t, non_trainable = n\<rparr>, optimizer_state = os\<rparr>))))"

subsection \<open>The optimizer strategy\<close>

text \<open>
  A \<^verbatim>\<open>tf.train.Optimizer\<close> is a collaborator. What the module uses of it:
  \<^verbatim>\<open>optimizer.variables()\<close>, the list of the optimizer's own variables (an optimizer may
  create them only at its first \<^verbatim>\<open>apply_gradients\<close>), and
  \<^verbatim>\<open>optimizer.apply_gradients(grads_and_vars)\<close>, which reads the pairs of a gradient and a
  variable and the optimizer's variables, and writes the variables of the pairs and its
  own. \<open>initial_variables\<close> is the content of \<^verbatim>\<open>optimizer.variables()\<close> right after
  \<^verbatim>\<open>optimizer_fn()\<close>; \<open>apply_gradients\<close> maps the pairs (gradient, content of the
  variable) and the optimizer's variables to the new contents of the pairs' variables,
  in order, and the optimizer's variables afterwards.
\<close>

record Optimizer =
  initial_variables :: "tensor list"
  apply_gradients ::
    "(tensor \<times> tensor) list \<Rightarrow> tensor list \<Rightarrow> error + (tensor list \<times> tensor list)"

text \<open>
  The variables of a dictionary take the new contents, in order. The keys and the number
  of variables are those of the dictionary: an optimizer writes variables, it neither
  adds nor removes one.
\<close>

fun assign_values :: "'a odict \<Rightarrow> 'a list \<Rightarrow> 'a odict" where
  "assign_values [] zs = []"
| "assign_values (kv # kvs) [] = kv # kvs"
| "assign_values (kv # kvs) (z # zs) = (fst kv, z) # assign_values kvs zs"

subsection \<open>Server computations\<close>

text \<open>
  \<^verbatim>\<open>apply_delta\<close>, the closure of \<^verbatim>\<open>_create_optimizer_and_server_state\<close>. The variables it
  reads and writes (the model's weights and the optimizer's variables) are the
  \<open>ServerState\<close> argument \<open>s\<close>; the result is their content afterwards.
\<close>

definition apply_delta :: "Optimizer \<Rightarrow> tensor odict \<Rightarrow> ServerState \<Rightarrow> error + ServerState" where
  "apply_delta optimizer delta s =
     (if \<not> same_structure delta (trainable (model s)) then Inl StructureError
      else
        let grads_and_vars =
              map2 (\<lambda>x v. (scalar_mul (Fin (- 1)) x, v))
                (flatten delta) (flatten (trainable (model s)))
        in case apply_gradients optimizer grads_and_vars (optimizer_state s) of
             Inl e \<Rightarrow> Inl e
           | Inr (new_values, optimizer_vars) \<Rightarrow>
               Inr \<lparr>model = (model s)\<lparr>trainable := assign_values (trainable (model s)) new_values\<rparr>,
                    optimizer_state = optimizer_vars\<rparr>)"

text \<open>
  \<^verbatim>\<open>_create_optimizer_and_server_state(model, optimizer)\<close>. Of the model only its weights
  are used. The function \<^verbatim>\<open>apply_delta\<close> it also returns is \<open>apply_delta optimizer\<close>.
\<close>

definition create_optimizer_and_server_state :: "ModelWeights \<Rightarrow> Optimizer \<Rightarrow> error + ServerState" where
  "create_optimizer_and_server_state model_weights optimizer =
     (let weights_delta = map_structure zeros_like (trainable model_weights)
      in apply_delta optimizer weights_delta
           \<lparr>model = model_weights, optimizer_state = initial_variables optimizer\<rparr>)"

text \<open>
  \<^verbatim>\<open>server_init(model_fn, optimizer_fn)\<close>. A factory is deterministic and takes no argument:
  \<open>model_fn\<close> is the weights of the model it constructs, \<open>optimizer_fn\<close> the optimizer.
\<close>

definition server_init :: "ModelWeights \<Rightarrow> Optimizer \<Rightarrow> error + ServerState" where
  "server_init model_fn optimizer_fn = create_optimizer_and_server_state model_fn optimizer_fn"

text \<open>\<^verbatim>\<open>server_update_model(server_state, weights_delta, model_fn, optimizer_fn)\<close>.\<close>

definition server_update_model ::
  "ServerState \<Rightarrow> tensor odict \<Rightarrow> ModelWeights \<Rightarrow> Optimizer \<Rightarrow> error + ServerState" where
  "server_update_model server_state weights_delta model_fn optimizer_fn =
     bind_err (create_optimizer_and_server_state model_fn optimizer_fn) (\<lambda>server_vars.
     bind_err (assign_state server_vars server_state) (\<lambda>server_vars.
     apply_delta optimizer_fn weights_delta server_vars))"

subsection \<open>Optimizer strategies used as instances\<close>

text \<open>
  Modelled from the spec: the plain gradient-descent rule
  (\<^verbatim>\<open>tf.train.GradientDescentOptimizer\<close>, outside the repository). It subtracts
  \<open>learning_rate * gradient\<close> from every variable, has no variables of its own, and wants
  a gradient of the shape of its variable.
\<close>

definition shapes_agree :: "(tensor \<times> tensor) list \<Rightarrow> bool" where
  "shapes_agree gvs = list_all (\<lambda>(g, v). shape g = shape v) gvs"

definition descend :: "real \<Rightarrow> tensor \<Rightarrow> tensor \<Rightarrow> tensor" where
  "descend learning_rate g v =
     \<lparr>shape = shape v,
      vals = map2 (\<lambda>gi vi. fl_sub vi (fl_mul (Fin learning_rate) gi)) (vals g) (vals v)\<rparr>"

definition GradientDescentOptimizer :: "real \<Rightarrow> Optimizer" where
  "GradientDescentOptimizer learning_rate =
     \<lparr>initial_variables = [],
      apply_gradients = (\<lambda>gvs ovars.
        if shapes_agree gvs
        then Inr (map (\<lambda>(g, v). descend learning_rate g v) gvs, ovars)
        else Inl ShapeError)\<rparr>"

text \<open>
  A stateful rule (\<^verbatim>\<open>tf.train.MomentumOptimizer\<close>, outside the repository): one
  accumulator per variable, created as zeros at the first \<^verbatim>\<open>apply_gradients\<close>;
  \<open>accum := momentum * accum + gradient\<close>, then \<open>var := var - learning_rate * accum\<close>.
\<close>

definition accumulate :: "real \<Rightarrow> tensor \<Rightarrow> tensor \<Rightarrow> tensor" where
  "accumulate momentum g a =
     \<lparr>shape = shape a,
      vals = map2 (\<lambda>gi ai. fl_add (fl_mul (Fin momentum) ai) gi) (vals g) (vals a)\<rparr>"

definition MomentumOptimizer :: "real \<Rightarrow> real \<Rightarrow> Optimizer" where
  "MomentumOptimizer learning_rate momentum =
     \<lparr>initial_variables = [],
      apply_gradients = (\<lambda>gvs ovars.
        let accums = (if ovars = [] then map (\<lambda>(g, v). zeros_like v) gvs else ovars)
        in if \<not> shapes_agree gvs then Inl ShapeError
           else if length accums \<noteq> length gvs \<or> \<not> shapes_agree (zip accums (map snd gvs))
           then Inl (CollaboratorError ''slot'')
           else
             let accums' = map2 (\<lambda>(g, v) a. accumulate momentum g a) gvs accums
             in Inr (map2 (\<lambda>(g, v) a. descend learning_rate a v) gvs accums', accums'))\<rparr>"

text \<open>
  A rule that moves a variable even at a zero gradient
  (\<^verbatim>\<open>tf.train.ProximalGradientDescentOptimizer\<close> with an L2 regularization strength and no
  L1, outside the repository): \<open>var := (var - learning_rate * gradient) / (1 + learning_rate * l2)\<close>.
\<close>

definition shrink :: "real \<Rightarrow> tensor \<Rightarrow> tensor" where
  "shrink c v = \<lparr>shape = shape v, vals = map (fl_mul (Fin (1 / (1 + c)))) (vals v)\<rparr>"

definition ProximalGradientDescentOptimizer :: "real \<Rightarrow> real \<Rightarrow> Optimizer" where
  "ProximalGradientDescentOptimizer learning_rate l2 =
     \<lparr>initial_variables = [],
      apply_gradients = (\<lambda>gvs ovars.
        if shapes_agree gvs
        then Inr (map (\<lambda>(g, v). shrink (learning_rate * l2) (descend learning_rate g v)) gvs, ovars)
        else Inl ShapeError)\<rparr>"

subsection \<open>The client computation\<close>

text \<open>
  The model of a client is a collaborator (\<^verbatim>\<open>learning.TrainableModel\<close>). Its variables are
  its weights and its local variables (the accumulators behind its metrics), of a type
  \<open>'l\<close> the module never looks into. \<^verbatim>\<open>train_on_batch\<close> reads a batch and the variables,
  and gives its output and the variables afterwards, or raises; of the output only the
  predictions are used. \<^verbatim>\<open>aggregated_outputs\<close> reads the variables.
\<close>

record BatchOutput =
  predictions :: tensor

record 'l ModelVars =
  weights :: ModelWeights
  local_variables :: 'l

record ('b, 'l, 'o) TrainableModel =
  train_on_batch :: "'b \<Rightarrow> 'l ModelVars \<Rightarrow> error + (BatchOutput \<times> 'l ModelVars)"
  aggregated_outputs :: "'l ModelVars \<Rightarrow> 'o"

text \<open>
  Modelled from the spec: \<^verbatim>\<open>optimizer_utils.ClientOutput\<close>, which is not under src/. The
  module fills it in the order weights delta, weight, aggregated outputs, statistics; the
  statistics are the dictionary built in \<^verbatim>\<open>__call__\<close>.
\<close>

record ClientStats =
  num_examples :: "32 word"
  has_non_finite_delta :: int
  workaround :: tfloat

record 'o ClientOutput =
  weights_delta :: "tensor odict"
  weight :: tfloat
  aggregated_model_outputs :: 'o
  stats :: ClientStats

text \<open>
  Modelled from the spec: \<^verbatim>\<open>tensor_utils.zero_all_if_any_non_finite\<close>, which is not under
  src/. It scans every leaf for NaN or infinite values; if any is found every leaf is
  replaced by zeros of the same shape and the flag is set. The module compares the flag
  with \<open>0\<close>: it is the integer \<open>0\<close> when every element is finite and \<open>1\<close> otherwise.
\<close>

definition all_finite :: "tensor odict \<Rightarrow> bool" where
  "all_finite structure = list_all (\<lambda>t. list_all is_finite (vals t)) (flatten structure)"

definition zero_all_if_any_non_finite :: "tensor odict \<Rightarrow> tensor odict \<times> int" where
  "zero_all_if_any_non_finite structure =
     (if all_finite structure then (structure, 0)
      else (map_structure zeros_like structure, 1))"

text \<open>
  A \<^verbatim>\<open>ClientFedAvg\<close> object: the model (its methods and its variables), the variable
  \<^verbatim>\<open>_num_examples\<close> (an \<^verbatim>\<open>int32\<close>) and the weight function. The default weight function
  reads \<^verbatim>\<open>_num_examples\<close> when it is called, so the function takes the content of that
  variable as its first argument.
\<close>

record ('b, 'l, 'o) ClientFedAvg =
  self_model :: "('b, 'l, 'o) TrainableModel"
  self_model_vars :: "'l ModelVars"
  self_num_examples :: "32 word"
  self_client_weight_fn :: "32 word \<Rightarrow> 'o \<Rightarrow> tfloat"

text \<open>\<^verbatim>\<open>ClientFedAvg.__init__(model, client_weight_fn=None)\<close>.\<close>

definition ClientFedAvg_init ::
  "('b, 'l, 'o) TrainableModel \<Rightarrow> 'l ModelVars \<Rightarrow> ('o \<Rightarrow> tfloat) option \<Rightarrow> ('b, 'l, 'o) ClientFedAvg" where
  "ClientFedAvg_init model_methods model_vars client_weight_fn =
     \<lparr>self_model = model_methods,
      self_model_vars = model_vars,
      self_num_examples = 0,
      self_client_weight_fn =
        (case client_weight_fn of
           Some f \<Rightarrow> (\<lambda>n. f)
         | None \<Rightarrow> (\<lambda>n _. tf_cast_float n))\<rparr>"

text \<open>
  \<^verbatim>\<open>reduce_fn(dummy_state, batch)\<close>: one training step, then \<^verbatim>\<open>_num_examples\<close> grows by the
  leading dimension of the predictions (an \<^verbatim>\<open>int32\<close> addition). A tensor without a
  dimension has no leading one.
\<close>

definition reduce_fn ::
  "tfloat \<Rightarrow> 'b \<Rightarrow> ('b, 'l, 'o) ClientFedAvg \<Rightarrow> error + (tfloat \<times> ('b, 'l, 'o) ClientFedAvg)" where
  "reduce_fn dummy_state batch self =
     (case train_on_batch (self_model self) batch (self_model_vars self) of
        Inl e \<Rightarrow> Inl e
      | Inr (output, vars) \<Rightarrow>
          (case shape (predictions output) of
             [] \<Rightarrow> Inl ShapeError
           | n # _ \<Rightarrow>
               Inr (dummy_state,
                    self\<lparr>self_model_vars := vars,
                         self_num_examples := self_num_examples self + of_nat n\<rparr>)))"

text \<open>
  \<^verbatim>\<open>dataset.reduce(initial_state, reduce_func)\<close>: a dataset is the finite list of its
  batches; \<open>'st\<close> is the state of the variables the reduce function reads and writes.
\<close>

fun dataset_reduce ::
  "'b list \<Rightarrow> 's \<Rightarrow> ('s \<Rightarrow> 'b \<Rightarrow> 'st \<Rightarrow> error + ('s \<times> 'st)) \<Rightarrow> 'st \<Rightarrow> error + ('s \<times> 'st)" where
  "dataset_reduce [] state reduce_func st = Inr (state, st)"
| "dataset_reduce (batch # dataset) state reduce_func st =
     (case reduce_func state batch st of
        Inl e \<Rightarrow> Inl e
      | Inr (state', st') \<Rightarrow> dataset_reduce dataset state' reduce_func st')"

text \<open>
  \<^verbatim>\<open>ClientFedAvg.__call__(dataset, initial_weights)\<close>: the output and the object
  afterwards.
\<close>

definition ClientFedAvg_call ::
  "('b, 'l, 'o) ClientFedAvg \<Rightarrow> 'b list \<Rightarrow> ModelWeights \<Rightarrow>
   error + ('o ClientOutput \<times> ('b, 'l, 'o) ClientFedAvg)" where
  "ClientFedAvg_call self dataset initial_weights =
     (case assign_weights (weights (self_model_vars self)) initial_weights of
        Inl e \<Rightarrow> Inl e
      | Inr w \<Rightarrow>
     (case dataset_reduce dataset (Fin 0) reduce_fn
             (self\<lparr>self_model_vars := (self_model_vars self)\<lparr>weights := w\<rparr>\<rparr>) of
        Inl e \<Rightarrow> Inl e
      | Inr (dummy_output, self') \<Rightarrow>
     (case map_structure2 tf_subtract
             (trainable (weights (self_model_vars self'))) (trainable initial_weights) of
        Inl e \<Rightarrow> Inl e
      | Inr delta \<Rightarrow>
          let aggregated = aggregated_outputs (self_model self') (self_model_vars self');
              weights_delta_weight =
                self_client_weight_fn self' (self_num_examples self') aggregated;
              (delta', non_finite) = zero_all_if_any_non_finite delta;
              weights_delta_weight' = (if non_finite = 0 then weights_delta_weight else Fin 0)
          in Inr (\<lparr>weights_delta = delta',
                    weight = weights_delta_weight',
                    aggregated_model_outputs = aggregated,
                    stats = \<lparr>num_examples = self_num_examples self',
                             has_non_finite_delta = non_finite,
                             workaround = dummy_output\<rparr>\<rparr>,
                  self'))))"

subsection \<open>A model used as an instance\<close>

text \<open>
  A batch is the list of its examples, each a number. A training step adds every example
  of the batch to every element of every trainable weight, and appends the batch to the
  local variable; the predictions have one row per example. The aggregated output is the
  list of the batches seen.
\<close>

definition add_examples :: "tfloat list \<Rightarrow> tensor \<Rightarrow> tensor" where
  "add_examples batch t = \<lparr>shape = shape t, vals = map (\<lambda>v. foldl fl_add v batch) (vals t)\<rparr>"

definition summing_model :: "(tfloat list, tfloat list list, tfloat list list) TrainableModel" where
  "summing_model =
     \<lparr>train_on_batch = (\<lambda>batch vars.
        Inr (\<lparr>predictions = \<lparr>shape = [length batch], vals = batch\<rparr>\<rparr>,
             \<lparr>weights = (weights vars)\<lparr>trainable :=
                  map_structure (add_examples batch) (trainable (weights vars))\<rparr>,
              local_variables = local_variables vars @ [batch]\<rparr>)),
      aggregated_outputs = local_variables\<rparr>"

subsection \<open>Predicates and values used in the statements\<close>

text \<open>Two lists of tensors with the same shapes, place by place.\<close>

definition same_shapes :: "tensor list \<Rightarrow> tensor list \<Rightarrow> bool" where
  "same_shapes xs ys = (map shape xs = map shape ys)"

text \<open>Two server states with the same structure and the same shape at every leaf.\<close>

definition same_form :: "ServerState \<Rightarrow> ServerState \<Rightarrow> bool" where
  "same_form a b =
     (same_structure_state a b \<and>
      same_shapes (flatten (trainable (model a))) (flatten (trainable (model b))) \<and>
      same_shapes (flatten (non_trainable (model a))) (flatten (non_trainable (model b))) \<and>
      same_shapes (optimizer_state a) (optimizer_state b))"

text \<open>A scalar tensor, and the weights of a model with the single scalar weight \<open>w\<close>.\<close>

definition scalar :: "tfloat \<Rightarrow> tensor" where
  "scalar x = \<lparr>shape = [], vals = [x]\<rparr>"

definition single_weight :: "tfloat \<Rightarrow> ModelWeights" where
  "single_weight x = \<lparr>trainable = [(''w'', scalar x)], non_trainable = []\<rparr>"

text \<open>The elementwise sum of two tensors and, leaf by leaf, of two dictionaries.\<close>

definition add_tensor :: "tensor \<Rightarrow> tensor \<Rightarrow> tensor" where
  "add_tensor v x = \<lparr>shape = shape v, vals = map2 fl_add (vals v) (vals x)\<rparr>"

definition add_odict :: "tensor odict \<Rightarrow> tensor odict \<Rightarrow> tensor odict" where
  "add_odict a b = map2 (\<lambda>(k, v) (_, x). (k, add_tensor v x)) a b"

text \<open>The tensor with every element negated.\<close>

definition negate :: "tensor \<Rightarrow> tensor" where
  "negate x = \<lparr>shape = shape x, vals = map fl_neg (vals x)\<rparr>"

text \<open>
  What a plain gradient-descent step with the negated delta leaves in the variables of a
  dictionary.
\<close>

definition gd_step :: "real \<Rightarrow> tensor odict \<Rightarrow> tensor odict \<Rightarrow> tensor odict" where
  "gd_step learning_rate variables delta =
     map2 (\<lambda>(k, v) (_, x). (k, descend learning_rate (scalar_mul (Fin (- 1)) x) v)) variables delta"

text \<open>
  The simpler pipeline of the server update: the variables are constructed, they take
  the values of the previous state, and the delta is applied once. \<open>constructed\<close> is the
  content of the variables after their construction.
\<close>

definition rehydrate_and_apply ::
  "ServerState \<Rightarrow> ServerState \<Rightarrow> tensor odict \<Rightarrow> Optimizer \<Rightarrow> error + ServerState" where
  "rehydrate_and_apply constructed server_state delta optimizer =
     bind_err (assign_state constructed server_state) (\<lambda>variables.
     apply_delta optimizer delta variables)"

text \<open>
  The strict left fold of the spec: one training step per batch, in the order of the
  dataset, each step starting from the variables the previous one left.
\<close>

fun train_in_order ::
  "('b, 'l, 'o) TrainableModel \<Rightarrow> 'b list \<Rightarrow> 'l ModelVars \<Rightarrow> error + 'l ModelVars" where
  "train_in_order m [] vars = Inr vars"
| "train_in_order m (batch # dataset) vars =
     (case train_on_batch m batch vars of
        Inl e \<Rightarrow> Inl e
      | Inr (output, vars') \<Rightarrow> train_in_order m dataset vars')"

text \<open>
  The contract of \<^verbatim>\<open>train_on_batch\<close> in the spec: the leading dimension of the predictions
  it returns is the size of the batch.
\<close>

definition reports_batch_size :: "('b, 'l, 'o) TrainableModel \<Rightarrow> ('b \<Rightarrow> nat) \<Rightarrow> bool" where
  "reports_batch_size m batch_size =
     (\<forall>batch vars output vars'.
        train_on_batch m batch vars = Inr (output, vars') \<longrightarrow>
        (\<exists>rest. shape (predictions output) = batch_size batch # rest))"

text \<open>A freshly constructed client around the instance model, with the default weight function.\<close>

definition summing_client ::
  "tfloat \<Rightarrow> (tfloat list, tfloat list list, tfloat list list) ClientFedAvg" where
  "summing_client x =
     ClientFedAvg_init summing_model \<lparr>weights = single_weight x, local_variables = []\<rparr> None"

section \<open>Properties\<close>

subsection \<open>Assignment of structures\<close>

lemma map_leaves_tf_assign:
  "length xs = length ys \<Longrightarrow>
   map_leaves tf_assign xs ys = (if same_shapes xs ys then Inr ys else Inl ShapeError)"
  by (induction xs ys rule: list_induct2) (auto simp: same_shapes_def tf_assign_def)

lemma zip_keys_values: "map fst a = map fst b \<Longrightarrow> zip (map fst a) (map snd b) = b"
  by (simp add: zip_map_fst_snd)

lemma assign_odict_eq:
  assumes "same_structure a b"
  shows "assign_odict a b = (if same_shapes (flatten a) (flatten b) then Inr b else Inl ShapeError)"
proof -
  from assms have keys: "map fst a = map fst b"
    by (simp add: same_structure_def)
  then have "length (flatten a) = length (flatten b)"
    unfolding flatten_def by (metis length_map)
  then show ?thesis
    using keys
    by (simp add: assign_odict_def map_leaves_tf_assign bind_err_def flatten_def zip_keys_values)
qed

text \<open>
  An assignment of a whole structure either raises or leaves exactly the assigned values
  in the variables.
\<close>

lemma assign_state_eq:
  "assign_state a b =
     (if \<not> same_structure_state a b then Inl StructureError
      else if same_form a b then Inr b else Inl ShapeError)"
  by (simp add: assign_state_def same_form_def same_structure_state_def
      same_structure_weights_def assign_odict_eq map_leaves_tf_assign bind_err_def)

lemma assign_weights_eq:
  "assign_weights a b =
     (if \<not> same_structure_weights a b then Inl StructureError
      else if same_shapes (flatten (trainable a)) (flatten (trainable b)) \<and>
              same_shapes (flatten (non_trainable a)) (flatten (non_trainable b))
           then Inr b else Inl ShapeError)"
  by (simp add: assign_weights_def same_structure_weights_def assign_odict_eq bind_err_def)

lemma same_form_refl: "same_form s s"
  by (simp add: same_form_def same_structure_state_def same_structure_weights_def
      same_structure_def same_shapes_def)

subsection \<open>What a step of the optimizer leaves alone\<close>

lemma keys_assign_values: "map fst (assign_values kvs zs) = map fst kvs"
  by (induction kvs zs rule: assign_values.induct) simp_all

lemma apply_delta_frame:
  assumes "apply_delta optimizer delta s = Inr s'"
  shows "map fst (trainable (model s')) = map fst (trainable (model s))"
    and "non_trainable (model s') = non_trainable (model s)"
  using assms
  by (auto simp: apply_delta_def Let_def keys_assign_values split: if_splits sum.splits prod.splits)

lemma create_frame:
  assumes "create_optimizer_and_server_state model_fn optimizer = Inr vars"
  shows "map fst (trainable (model vars)) = map fst (trainable model_fn)"
    and "non_trainable (model vars) = non_trainable model_fn"
  using assms
    apply_delta_frame[of optimizer _ "\<lparr>model = model_fn, optimizer_state = initial_variables optimizer\<rparr>" vars]
  by (simp_all add: create_optimizer_and_server_state_def Let_def)

text \<open>
  Once the fresh variables exist, an update is the check of the previous state against
  them followed by one \<open>apply_delta\<close> on the previous state.
\<close>

lemma server_update_model_eq:
  assumes "create_optimizer_and_server_state model_fn optimizer_fn = Inr vars"
  shows "server_update_model server_state delta model_fn optimizer_fn =
     (if \<not> same_structure_state vars server_state then Inl StructureError
      else if same_form vars server_state then apply_delta optimizer_fn delta server_state
      else Inl ShapeError)"
  using assms by (simp add: server_update_model_def bind_err_def assign_state_eq)

subsection \<open>Arithmetic of a plain gradient-descent step\<close>

lemma fl_mul_minus_one: "fl_mul (Fin (- 1)) a = fl_neg a"
  by (cases a) (simp_all add: inf_times_def)

lemma fl_mul_one: "fl_mul (Fin 1) a = a"
  by (cases a) (simp_all add: inf_times_def)

lemma fl_neg_neg: "fl_neg (fl_neg a) = a"
  by (cases a) simp_all

lemma scalar_mul_negate: "scalar_mul (Fin (- 1)) x = negate x"
  by (simp add: scalar_mul_def negate_def fl_mul_minus_one)

lemma fl_step_one: "fl_sub v (fl_mul (Fin 1) (fl_mul (Fin (- 1)) a)) = fl_add v a"
  by (simp add: fl_sub_def fl_mul_one fl_mul_minus_one fl_neg_neg)



lemma descend_one: "descend 1 (scalar_mul (Fin (- 1)) x) v = add_tensor v x"
proof -
  have "map2 (\<lambda>gi vi. fl_sub vi (fl_mul (Fin 1) gi)) (map (fl_mul (Fin (- 1))) xs) vs
        = map2 fl_add vs xs" for xs vs
  proof (induction xs arbitrary: vs)
    case Nil
    then show ?case by simp
  next
    case (Cons a xs)
    then show ?case by (cases vs) (simp_all add: fl_step_one)
  qed
  then show ?thesis
    by (simp add: descend_def scalar_mul_def add_tensor_def)
qed


lemma shape_descend: "shape (descend lr g v) = shape v"
  by (simp add: descend_def)

lemma gd_step_keys: "length d = length tr \<Longrightarrow> map fst (gd_step lr tr d) = map fst tr"
  unfolding gd_step_def by (induction d tr rule: list_induct2) (auto split: prod.splits)

lemma gd_step_shapes:
  "length d = length tr \<Longrightarrow> map (shape \<circ> snd) (gd_step lr tr d) = map (shape \<circ> snd) tr"
  unfolding gd_step_def
  by (induction d tr rule: list_induct2) (auto simp: shape_descend split: prod.splits)

lemma gd_step_one: "gd_step 1 tr d = add_odict tr d"
  by (simp add: gd_step_def add_odict_def descend_one)


lemma gd_values:
  "length d = length tr \<Longrightarrow>
   assign_values tr
     (map (\<lambda>(g, v). descend lr g v)
        (map2 (\<lambda>x v. (scalar_mul (Fin (- 1)) x, v)) (map snd d) (map snd tr)))
   = gd_step lr tr d"
  unfolding gd_step_def
  by (induction d tr rule: list_induct2) (auto split: prod.splits)

lemma gd_shapes_agree:
  "map shape (map snd d) = map shape (map snd tr) \<Longrightarrow>
   shapes_agree (map2 (\<lambda>x v. (scalar_mul (Fin (- 1)) x, v)) (map snd d) (map snd tr))"
proof (induction d arbitrary: tr)
  case Nil
  then show ?case by (simp add: shapes_agree_def)
next
  case (Cons a d)
  then show ?case by (cases tr) (auto simp: shapes_agree_def scalar_mul_def)
qed

lemma gd_apply_delta:
  assumes keys: "same_structure d (trainable (model s))"
    and shapes: "same_shapes (flatten d) (flatten (trainable (model s)))"
  shows "apply_delta (GradientDescentOptimizer lr) d s =
     Inr (s\<lparr>model := (model s)\<lparr>trainable := gd_step lr (trainable (model s)) d\<rparr>\<rparr>)"
proof -
  define gvs where
    "gvs = map2 (\<lambda>x v. (scalar_mul (Fin (- 1)) x, v)) (flatten d) (flatten (trainable (model s)))"
  from keys have len: "length d = length (trainable (model s))"
    unfolding same_structure_def by (metis length_map)
  from shapes have agree: "shapes_agree gvs"
    unfolding gvs_def flatten_def same_shapes_def by (rule gd_shapes_agree)
  have new: "assign_values (trainable (model s)) (map (\<lambda>(g, v). descend lr g v) gvs)
      = gd_step lr (trainable (model s)) d"
    unfolding gvs_def flatten_def by (rule gd_values[OF len])
  show ?thesis
    unfolding apply_delta_def Let_def gvs_def[symmetric]
    using keys agree new by (simp add: GradientDescentOptimizer_def)
qed


lemma zeros_structure: "same_structure (map_structure zeros_like tr) tr"
  by (simp add: same_structure_def map_structure_def case_prod_unfold comp_def)

lemma zeros_shapes: "same_shapes (flatten (map_structure zeros_like tr)) (flatten tr)"
  by (simp add: same_shapes_def flatten_def map_structure_def zeros_like_def case_prod_unfold comp_def)

lemma gd_create:
  "create_optimizer_and_server_state model_fn (GradientDescentOptimizer lr) =
     Inr \<lparr>model = model_fn\<lparr>trainable :=
              gd_step lr (trainable model_fn) (map_structure zeros_like (trainable model_fn))\<rparr>,
          optimizer_state = []\<rparr>"
  using gd_apply_delta[of "map_structure zeros_like (trainable model_fn)"
      "\<lparr>model = model_fn, optimizer_state = []\<rparr>" lr]
  by (simp add: create_optimizer_and_server_state_def zeros_structure zeros_shapes
      GradientDescentOptimizer_def)

lemma gd_step_form:
  assumes "same_structure d (trainable (model s))"
  shows "same_form a (s\<lparr>model := (model s)\<lparr>trainable := gd_step lr (trainable (model s)) d\<rparr>\<rparr>)
         = same_form a s"
proof -
  from assms have len: "length d = length (trainable (model s))"
    unfolding same_structure_def by (metis length_map)
  have k: "map fst (gd_step lr (trainable (model s)) d) = map fst (trainable (model s))"
    by (rule gd_step_keys[OF len])
  have sh: "map (shape \<circ> snd) (gd_step lr (trainable (model s)) d)
      = map (shape \<circ> snd) (trainable (model s))"
    by (rule gd_step_shapes[OF len])
  show ?thesis
    by (simp add: same_form_def same_structure_state_def same_structure_weights_def
        same_structure_def same_shapes_def flatten_def k sh)
qed

lemma same_form_sym: "same_form a b \<Longrightarrow> same_form b a"
  by (simp add: same_form_def same_structure_state_def same_structure_weights_def
      same_structure_def same_shapes_def)

lemma same_form_trans: "same_form a b \<Longrightarrow> same_form b c \<Longrightarrow> same_form a c"
  by (simp add: same_form_def same_structure_state_def same_structure_weights_def
      same_structure_def same_shapes_def)

lemma same_form_structure: "same_form a b \<Longrightarrow> same_structure_state a b"
  by (simp add: same_form_def)

lemma gd_update:
  assumes form: "same_form \<lparr>model = model_fn, optimizer_state = []\<rparr> st"
    and keys: "same_structure d (trainable (model st))"
    and shapes: "same_shapes (flatten d) (flatten (trainable (model st)))"
  shows "server_update_model st d model_fn (GradientDescentOptimizer lr) =
     Inr (st\<lparr>model := (model st)\<lparr>trainable := gd_step lr (trainable (model st)) d\<rparr>\<rparr>)"
proof -
  let ?fresh = "\<lparr>model = model_fn, optimizer_state = []\<rparr>"
  let ?vars = "?fresh\<lparr>model := (model ?fresh)\<lparr>trainable :=
      gd_step lr (trainable (model ?fresh)) (map_structure zeros_like (trainable model_fn))\<rparr>\<rparr>"
  have created: "create_optimizer_and_server_state model_fn (GradientDescentOptimizer lr) = Inr ?vars"
    by (simp add: gd_create)
  have "same_form ?fresh ?vars"
    using gd_step_form[of "map_structure zeros_like (trainable model_fn)" ?fresh ?fresh lr]
    by (simp add: zeros_structure same_form_refl)
  then have "same_form ?vars st"
    using form by (blast intro: same_form_sym same_form_trans)
  then show ?thesis
    using keys shapes
    by (simp add: server_update_model_eq[OF created] same_form_structure gd_apply_delta)
qed

subsection \<open>Evaluation of the instances\<close>

lemmas server_defs =
  server_update_model_def server_init_def create_optimizer_and_server_state_def apply_delta_def
  assign_state_def assign_odict_def same_structure_state_def same_structure_weights_def
  same_structure_def map_structure_def flatten_def zeros_like_def scalar_mul_def bind_err_def
  tf_assign_def scalar_def single_weight_def

lemmas optimizer_defs =
  GradientDescentOptimizer_def MomentumOptimizer_def ProximalGradientDescentOptimizer_def
  shapes_agree_def descend_def accumulate_def shrink_def fl_sub_def inf_times_def

subsection \<open>The server update\<close>

text \<open>
  C3. A call of \<open>server_update_model\<close> returns a state exactly when the fresh variables
  could be constructed, the assignment of \<open>server_state\<close> to them went through, leaving the
  values of \<open>server_state\<close> (its model weights, trainable and non-trainable, and every
  tensor of its optimizer state) in the variables, and the step \<open>apply_delta\<close> taken from
  those values returns that state. The step starts from the previous round's state, not
  from the values the factories gave the variables.
\<close>

theorem server_update_model_rehydrates:
  "server_update_model server_state delta model_fn optimizer_fn = Inr result \<longleftrightarrow>
     (\<exists>server_vars.
        create_optimizer_and_server_state model_fn optimizer_fn = Inr server_vars \<and>
        assign_state server_vars server_state = Inr server_state \<and>
        apply_delta optimizer_fn delta server_state = Inr result)"
proof (cases "create_optimizer_and_server_state model_fn optimizer_fn")
  case (Inl e)
  then show ?thesis by (simp add: server_update_model_def bind_err_def)
next
  case (Inr vars)
  then show ?thesis
    by (auto simp: server_update_model_eq assign_state_eq)
qed

text \<open>
  An instance with a stateful optimizer: the factories give the weight 5 and a zero
  accumulator, the previous state holds the weight 2 and the accumulator -1. The step
  with the delta 1 is taken from 2 and -1.
\<close>

theorem server_update_model_rehydrates_witness:
  "server_update_model
     \<lparr>model = single_weight (Fin 2), optimizer_state = [scalar (Fin (- 1))]\<rparr>
     [(''w'', scalar (Fin 1))] (single_weight (Fin 5)) (MomentumOptimizer 1 (1 / 2))
   = Inr \<lparr>model = single_weight (Fin (7 / 2)), optimizer_state = [scalar (Fin (- 3 / 2))]\<rparr> \<and>
   create_optimizer_and_server_state (single_weight (Fin 5)) (MomentumOptimizer 1 (1 / 2))
   = Inr \<lparr>model = single_weight (Fin 5), optimizer_state = [scalar (Fin 0)]\<rparr> \<and>
   apply_delta (MomentumOptimizer 1 (1 / 2)) [(''w'', scalar (Fin 1))]
     \<lparr>model = single_weight (Fin 2), optimizer_state = [scalar (Fin (- 1))]\<rparr>
   = Inr \<lparr>model = single_weight (Fin (7 / 2)), optimizer_state = [scalar (Fin (- 3 / 2))]\<rparr>"
  using server_update_model_rehydrates
    [of "\<lparr>model = single_weight (Fin 2), optimizer_state = [scalar (Fin (- 1))]\<rparr>"
        "[(''w'', scalar (Fin 1))]" "single_weight (Fin 5)" "MomentumOptimizer 1 (1 / 2)"
        "\<lparr>model = single_weight (Fin (7 / 2)), optimizer_state = [scalar (Fin (- 3 / 2))]\<rparr>"]
  by (simp add: server_defs optimizer_defs)

text \<open>
  C9. When the structure of the delta is not the structure of the model's trainable
  weights, \<open>apply_delta\<close> raises the structure error, whatever the optimizer is: the
  comparison is its first statement and the optimizer, the only writer of the weights, is
  not reached. So \<open>server_update_model\<close> raises and returns no state; when the
  construction and the assignment of the previous state went through, the error is the
  structure error of \<open>apply_delta\<close>. The structure is what \<^verbatim>\<open>nest\<close> compares, the keys
  of the dictionary; the shape of a leaf is the optimizer's business.
\<close>

theorem structure_mismatch_fails_fast:
  assumes "\<not> same_structure delta (trainable model_fn)"
  shows "(\<forall>s. same_structure (trainable (model s)) (trainable model_fn) \<longrightarrow>
             apply_delta optimizer_fn delta s = Inl StructureError) \<and>
         (\<exists>e. server_update_model server_state delta model_fn optimizer_fn = Inl e) \<and>
         (\<forall>server_vars.
             create_optimizer_and_server_state model_fn optimizer_fn = Inr server_vars \<and>
             assign_state server_vars server_state = Inr server_state \<longrightarrow>
             server_update_model server_state delta model_fn optimizer_fn = Inl StructureError)"
proof -
  have direct: "apply_delta optimizer_fn delta s = Inl StructureError"
    if "same_structure (trainable (model s)) (trainable model_fn)" for s
    using that assms by (simp add: apply_delta_def same_structure_def)
  have rehydrated:
    "server_update_model server_state delta model_fn optimizer_fn = Inl StructureError"
    if c: "create_optimizer_and_server_state model_fn optimizer_fn = Inr server_vars"
      and a: "assign_state server_vars server_state = Inr server_state" for server_vars
  proof -
    from a have "same_structure_state server_vars server_state"
      by (simp add: assign_state_eq split: if_splits)
    then have "map fst (trainable (model server_state)) = map fst (trainable (model server_vars))"
      by (simp add: same_structure_state_def same_structure_weights_def same_structure_def)
    with create_frame(1)[OF c]
    have "same_structure (trainable (model server_state)) (trainable model_fn)"
      by (simp add: same_structure_def)
    then have "apply_delta optimizer_fn delta server_state = Inl StructureError"
      by (rule direct)
    with c a show ?thesis
      by (simp add: server_update_model_def bind_err_def)
  qed
  have fails: "\<exists>e. server_update_model server_state delta model_fn optimizer_fn = Inl e"
  proof (cases "create_optimizer_and_server_state model_fn optimizer_fn")
    case (Inl e)
    then show ?thesis by (simp add: server_update_model_def bind_err_def)
  next
    case (Inr server_vars)
    show ?thesis
    proof (cases "assign_state server_vars server_state")
      case (Inl e)
      with Inr show ?thesis by (simp add: server_update_model_def bind_err_def)
    next
      case r: (Inr s)
      then have "s = server_state"
        by (simp add: assign_state_eq split: if_splits)
      with r Inr rehydrated show ?thesis by blast
    qed
  qed
  from direct rehydrated fails show ?thesis by blast
qed

text \<open>
  An instance: a delta with two leaves for a model with one weight. The previous state
  fits the model, and the update raises the structure error.
\<close>

theorem structure_mismatch_fails_fast_witness:
  "\<not> same_structure [(''w'', scalar (Fin 1)), (''b'', scalar (Fin 1))]
       (trainable (single_weight (Fin 0))) \<and>
   apply_delta (GradientDescentOptimizer 1) [(''w'', scalar (Fin 1)), (''b'', scalar (Fin 1))]
     \<lparr>model = single_weight (Fin 3), optimizer_state = []\<rparr> = Inl StructureError \<and>
   server_update_model \<lparr>model = single_weight (Fin 3), optimizer_state = []\<rparr>
     [(''w'', scalar (Fin 1)), (''b'', scalar (Fin 1))]
     (single_weight (Fin 0)) (GradientDescentOptimizer 1) = Inl StructureError"
proof -
  have mismatch: "\<not> same_structure [(''w'', scalar (Fin 1)), (''b'', scalar (Fin 1))]
       (trainable (single_weight (Fin 0)))"
    by (simp add: same_structure_def single_weight_def)
  have created: "create_optimizer_and_server_state (single_weight (Fin 0)) (GradientDescentOptimizer 1)
      = Inr \<lparr>model = single_weight (Fin 0), optimizer_state = []\<rparr>"
    by (simp add: server_defs optimizer_defs)
  have assigned: "assign_state \<lparr>model = single_weight (Fin 0), optimizer_state = []\<rparr>
      \<lparr>model = single_weight (Fin 3), optimizer_state = []\<rparr>
      = Inr \<lparr>model = single_weight (Fin 3), optimizer_state = []\<rparr>"
    by (simp add: server_defs)
  have fits: "same_structure (trainable (model \<lparr>model = single_weight (Fin 3), optimizer_state = []\<rparr>))
      (trainable (single_weight (Fin 0)))"
    by (simp add: same_structure_def single_weight_def)
  from structure_mismatch_fails_fast
    [OF mismatch, of "GradientDescentOptimizer 1"
       "\<lparr>model = single_weight (Fin 3), optimizer_state = []\<rparr>"]
    mismatch created assigned fits
  show ?thesis by blast
qed

lemma negated_pairs:
  "map2 (\<lambda>x v. (scalar_mul (Fin (- 1)) x, v)) xs vs = zip (map negate xs) vs"
  by (simp add: scalar_mul_negate zip_map1 case_prod_unfold)

text \<open>
  C2. In \<open>server_update_model\<close>, once the previous state is in the variables, the
  optimizer's rule receives, leaf by leaf, the pairs of the negated delta (\<open>-1.0 * x\<close>
  negates every element) and the trainable variable holding the previous weight. With
  the plain gradient-descent rule and learning rate 1 the new trainable weights are the
  old ones plus the delta, elementwise, and nothing else changes. In the scenario of the
  spec (scalar weight 1.0, aggregated delta -0.1) the new weight is 0.9.
\<close>

theorem server_update_passes_negated_delta:
  "(create_optimizer_and_server_state model_fn optimizer_fn = Inr server_vars \<and>
    assign_state server_vars server_state = Inr server_state \<and>
    same_structure delta (trainable (model server_state)) \<longrightarrow>
      server_update_model server_state delta model_fn optimizer_fn =
        (case apply_gradients optimizer_fn
                (zip (map negate (flatten delta)) (flatten (trainable (model server_state))))
                (optimizer_state server_state) of
           Inl e \<Rightarrow> Inl e
         | Inr (new_values, optimizer_vars) \<Rightarrow>
             Inr \<lparr>model = (model server_state)\<lparr>trainable :=
                     assign_values (trainable (model server_state)) new_values\<rparr>,
                  optimizer_state = optimizer_vars\<rparr>)) \<and>
   (same_form \<lparr>model = model_fn, optimizer_state = []\<rparr> server_state \<and>
    same_structure delta (trainable (model server_state)) \<and>
    same_shapes (flatten delta) (flatten (trainable (model server_state))) \<longrightarrow>
      server_update_model server_state delta model_fn (GradientDescentOptimizer 1) =
        Inr (server_state\<lparr>model := (model server_state)\<lparr>trainable :=
               add_odict (trainable (model server_state)) delta\<rparr>\<rparr>)) \<and>
   server_update_model \<lparr>model = single_weight (Fin 1), optimizer_state = []\<rparr>
       [(''w'', scalar (Fin (- 1 / 10)))] (single_weight (Fin 1)) (GradientDescentOptimizer 1)
     = Inr \<lparr>model = single_weight (Fin (9 / 10)), optimizer_state = []\<rparr>"
proof (intro conjI impI)
  assume "create_optimizer_and_server_state model_fn optimizer_fn = Inr server_vars \<and>
    assign_state server_vars server_state = Inr server_state \<and>
    same_structure delta (trainable (model server_state))"
  then show "server_update_model server_state delta model_fn optimizer_fn =
        (case apply_gradients optimizer_fn
                (zip (map negate (flatten delta)) (flatten (trainable (model server_state))))
                (optimizer_state server_state) of
           Inl e \<Rightarrow> Inl e
         | Inr (new_values, optimizer_vars) \<Rightarrow>
             Inr \<lparr>model = (model server_state)\<lparr>trainable :=
                     assign_values (trainable (model server_state)) new_values\<rparr>,
                  optimizer_state = optimizer_vars\<rparr>)"
    by (simp add: server_update_model_def bind_err_def apply_delta_def negated_pairs)
next
  assume "same_form \<lparr>model = model_fn, optimizer_state = []\<rparr> server_state \<and>
    same_structure delta (trainable (model server_state)) \<and>
    same_shapes (flatten delta) (flatten (trainable (model server_state)))"
  then show "server_update_model server_state delta model_fn (GradientDescentOptimizer 1) =
        Inr (server_state\<lparr>model := (model server_state)\<lparr>trainable :=
               add_odict (trainable (model server_state)) delta\<rparr>\<rparr>)"
    by (simp add: gd_update gd_step_one)
next
  show "server_update_model \<lparr>model = single_weight (Fin 1), optimizer_state = []\<rparr>
       [(''w'', scalar (Fin (- 1 / 10)))] (single_weight (Fin 1)) (GradientDescentOptimizer 1)
     = Inr \<lparr>model = single_weight (Fin (9 / 10)), optimizer_state = []\<rparr>"
    by (simp add: server_defs optimizer_defs)
qed

text \<open>
  An instance with two trainable leaves, a non-trainable one, and a delta that holds a
  NaN and an infinity: the sum follows the IEEE rules.
\<close>

theorem server_update_passes_negated_delta_witness:
  "server_update_model
     \<lparr>model = \<lparr>trainable = [(''w'', \<lparr>shape = [2], vals = [Fin 1, Fin 2]\<rparr>), (''b'', scalar (Fin 3))],
               non_trainable = [(''n'', scalar (Fin 7))]\<rparr>,
      optimizer_state = []\<rparr>
     [(''w'', \<lparr>shape = [2], vals = [Fin (1 / 2), NaN]\<rparr>), (''b'', scalar PInf)]
     \<lparr>trainable = [(''w'', \<lparr>shape = [2], vals = [Fin 0, Fin 0]\<rparr>), (''b'', scalar (Fin 0))],
      non_trainable = [(''n'', scalar (Fin 0))]\<rparr>
     (GradientDescentOptimizer 1)
   = Inr \<lparr>model = \<lparr>trainable = [(''w'', \<lparr>shape = [2], vals = [Fin (3 / 2), NaN]\<rparr>), (''b'', scalar PInf)],
               non_trainable = [(''n'', scalar (Fin 7))]\<rparr>,
      optimizer_state = []\<rparr> \<and>
   zip (map negate (flatten [(''w'', \<lparr>shape = [2], vals = [Fin (1 / 2), NaN]\<rparr>), (''b'', scalar PInf)]))
       (flatten [(''w'', \<lparr>shape = [2], vals = [Fin 1, Fin 2]\<rparr>), (''b'', scalar (Fin 3))])
   = [(\<lparr>shape = [2], vals = [Fin (- 1 / 2), NaN]\<rparr>, \<lparr>shape = [2], vals = [Fin 1, Fin 2]\<rparr>),
      (scalar NInf, scalar (Fin 3))]"
proof -
  let ?mf = "\<lparr>trainable = [(''w'', \<lparr>shape = [2], vals = [Fin 0, Fin 0]\<rparr>), (''b'', scalar (Fin 0))],
      non_trainable = [(''n'', scalar (Fin 0))]\<rparr>"
  let ?st = "\<lparr>model = \<lparr>trainable = [(''w'', \<lparr>shape = [2], vals = [Fin 1, Fin 2]\<rparr>), (''b'', scalar (Fin 3))],
               non_trainable = [(''n'', scalar (Fin 7))]\<rparr>,
      optimizer_state = []\<rparr>"
  let ?d = "[(''w'', \<lparr>shape = [2], vals = [Fin (1 / 2), NaN]\<rparr>), (''b'', scalar PInf)]"
  let ?vars = "\<lparr>model = ?mf, optimizer_state = []\<rparr>"
  have created: "create_optimizer_and_server_state ?mf (GradientDescentOptimizer 1) = Inr ?vars"
    by (simp add: server_defs optimizer_defs)
  have assigned: "assign_state ?vars ?st = Inr ?st"
    by (simp add: server_defs)
  have keys: "same_structure ?d (trainable (model ?st))"
    by (simp add: same_structure_def)
  have form: "same_form ?vars ?st"
    by (simp add: same_form_def same_shapes_def server_defs)
  have shapes: "same_shapes (flatten ?d) (flatten (trainable (model ?st)))"
    by (simp add: same_shapes_def flatten_def scalar_def)
  note at_input = server_update_passes_negated_delta
    [of ?mf "GradientDescentOptimizer 1" ?vars ?st ?d]
  from at_input[THEN conjunct1, rule_format, OF conjI[OF created conjI[OF assigned keys]]]
  have passed: "server_update_model ?st ?d ?mf (GradientDescentOptimizer 1) =
      (case apply_gradients (GradientDescentOptimizer 1)
              (zip (map negate (flatten ?d)) (flatten (trainable (model ?st))))
              (optimizer_state ?st) of
         Inl e \<Rightarrow> Inl e
       | Inr (new_values, optimizer_vars) \<Rightarrow>
           Inr \<lparr>model = (model ?st)\<lparr>trainable :=
                   assign_values (trainable (model ?st)) new_values\<rparr>,
                optimizer_state = optimizer_vars\<rparr>)" .
  from at_input[THEN conjunct2, THEN conjunct1, rule_format,
      OF conjI[OF form conjI[OF keys shapes]]]
  have "server_update_model ?st ?d ?mf (GradientDescentOptimizer 1) =
      Inr (?st\<lparr>model := (model ?st)\<lparr>trainable := add_odict (trainable (model ?st)) ?d\<rparr>\<rparr>)" .
  then have summed: "server_update_model ?st ?d ?mf (GradientDescentOptimizer 1) =
      Inr \<lparr>model = \<lparr>trainable = [(''w'', \<lparr>shape = [2], vals = [Fin (3 / 2), NaN]\<rparr>), (''b'', scalar PInf)],
               non_trainable = [(''n'', scalar (Fin 7))]\<rparr>,
          optimizer_state = []\<rparr>"
    by (simp add: add_odict_def add_tensor_def scalar_def)
  have pairs: "zip (map negate (flatten ?d)) (flatten (trainable (model ?st)))
      = [(\<lparr>shape = [2], vals = [Fin (- 1 / 2), NaN]\<rparr>, \<lparr>shape = [2], vals = [Fin 1, Fin 2]\<rparr>),
         (scalar NInf, scalar (Fin 3))]"
    by (simp add: negate_def flatten_def scalar_def)
  from summed pairs show ?thesis by simp
qed





lemma apply_delta_rule:
  "apply_gradients optimizer' = apply_gradients optimizer \<Longrightarrow>
   apply_delta optimizer' delta s = apply_delta optimizer delta s"
  by (simp add: apply_delta_def)

lemma same_form_left: "same_form a b \<Longrightarrow> same_form a c = same_form b c"
  by (auto simp: same_form_def same_structure_state_def same_structure_weights_def
      same_structure_def same_shapes_def)

lemma same_structure_left: "same_form a b \<Longrightarrow> same_structure_state a c = same_structure_state b c"
  by (auto simp: same_form_def same_structure_state_def same_structure_weights_def
      same_structure_def)

lemma rehydrate_and_apply_eq:
  "rehydrate_and_apply constructed server_state delta optimizer =
     (if \<not> same_structure_state constructed server_state then Inl StructureError
      else if same_form constructed server_state then apply_delta optimizer delta server_state
      else Inl ShapeError)"
  by (simp add: rehydrate_and_apply_def assign_state_eq bind_err_def)

text \<open>
  C10. The state \<open>server_update_model\<close> returns does not depend on the values the
  factories give the variables, nor on what the dry run with the zero delta does to
  them. Take two pairs of factories with the same optimizer rule whose variables, after
  construction and dry run, have the same structure and shapes: the two calls give the
  same result (a state or an error). And the result is that of the simpler pipeline
  \<open>rehydrate_and_apply\<close> (variables constructed, previous state assigned, delta applied
  once) run on variables of that form with any content. What the dry run contributes is
  the existence of the optimizer's variables, never a value.
\<close>

theorem server_update_independent_of_initial_values:
  assumes c: "create_optimizer_and_server_state model_fn optimizer_fn = Inr vars"
    and c': "create_optimizer_and_server_state model_fn' optimizer_fn' = Inr vars'"
    and rule: "apply_gradients optimizer_fn' = apply_gradients optimizer_fn"
    and form: "same_form vars vars'"
  shows "server_update_model server_state delta model_fn' optimizer_fn' =
           server_update_model server_state delta model_fn optimizer_fn \<and>
         (\<forall>constructed. same_form constructed vars \<longrightarrow>
            server_update_model server_state delta model_fn optimizer_fn =
              rehydrate_and_apply constructed server_state delta optimizer_fn)"
proof
  show "server_update_model server_state delta model_fn' optimizer_fn' =
           server_update_model server_state delta model_fn optimizer_fn"
    using same_form_left[OF form, of server_state] same_structure_left[OF form, of server_state]
    by (simp add: server_update_model_eq[OF c] server_update_model_eq[OF c'] apply_delta_rule[OF rule])
next
  show "\<forall>constructed. same_form constructed vars \<longrightarrow>
            server_update_model server_state delta model_fn optimizer_fn =
              rehydrate_and_apply constructed server_state delta optimizer_fn"
  proof (intro allI impI)
    fix constructed
    assume f: "same_form constructed vars"
    show "server_update_model server_state delta model_fn optimizer_fn =
              rehydrate_and_apply constructed server_state delta optimizer_fn"
      using same_form_left[OF f, of server_state] same_structure_left[OF f, of server_state]
      by (simp add: server_update_model_eq[OF c] rehydrate_and_apply_eq)
  qed
qed

text \<open>
  An instance with the momentum rule. One factory pair gives the weight 5 and a zero
  accumulator; the other gives the weight 9 and the accumulator 4, so its dry run moves
  the fresh weight to 7. The previous state holds the weight 2 and the accumulator -1;
  both calls, and the simpler pipeline on variables holding 100 and 42, return the
  weight 7/2 and the accumulator -3/2.
\<close>

theorem server_update_independent_of_initial_values_witness:
  "server_update_model
     \<lparr>model = single_weight (Fin 2), optimizer_state = [scalar (Fin (- 1))]\<rparr>
     [(''w'', scalar (Fin 1))] (single_weight (Fin 9))
     ((MomentumOptimizer 1 (1 / 2))\<lparr>initial_variables := [scalar (Fin 4)]\<rparr>)
   = Inr \<lparr>model = single_weight (Fin (7 / 2)), optimizer_state = [scalar (Fin (- 3 / 2))]\<rparr> \<and>
   server_update_model
     \<lparr>model = single_weight (Fin 2), optimizer_state = [scalar (Fin (- 1))]\<rparr>
     [(''w'', scalar (Fin 1))] (single_weight (Fin 5)) (MomentumOptimizer 1 (1 / 2))
   = Inr \<lparr>model = single_weight (Fin (7 / 2)), optimizer_state = [scalar (Fin (- 3 / 2))]\<rparr> \<and>
   rehydrate_and_apply
     \<lparr>model = single_weight (Fin 100), optimizer_state = [scalar (Fin 42)]\<rparr>
     \<lparr>model = single_weight (Fin 2), optimizer_state = [scalar (Fin (- 1))]\<rparr>
     [(''w'', scalar (Fin 1))] (MomentumOptimizer 1 (1 / 2))
   = Inr \<lparr>model = single_weight (Fin (7 / 2)), optimizer_state = [scalar (Fin (- 3 / 2))]\<rparr>"
proof -
  have c: "create_optimizer_and_server_state (single_weight (Fin 5)) (MomentumOptimizer 1 (1 / 2))
      = Inr \<lparr>model = single_weight (Fin 5), optimizer_state = [scalar (Fin 0)]\<rparr>"
    by (simp add: server_defs optimizer_defs)
  have c': "create_optimizer_and_server_state (single_weight (Fin 9))
        ((MomentumOptimizer 1 (1 / 2))\<lparr>initial_variables := [scalar (Fin 4)]\<rparr>)
      = Inr \<lparr>model = single_weight (Fin 7), optimizer_state = [scalar (Fin 2)]\<rparr>"
    by (simp add: server_defs optimizer_defs)
  have rule: "apply_gradients ((MomentumOptimizer 1 (1 / 2))\<lparr>initial_variables := [scalar (Fin 4)]\<rparr>)
      = apply_gradients (MomentumOptimizer 1 (1 / 2))"
    by simp
  have form: "same_form \<lparr>model = single_weight (Fin 5), optimizer_state = [scalar (Fin 0)]\<rparr>
      \<lparr>model = single_weight (Fin 7), optimizer_state = [scalar (Fin 2)]\<rparr>"
    by (simp add: same_form_def same_shapes_def server_defs)
  have form': "same_form \<lparr>model = single_weight (Fin 100), optimizer_state = [scalar (Fin 42)]\<rparr>
      \<lparr>model = single_weight (Fin 5), optimizer_state = [scalar (Fin 0)]\<rparr>"
    by (simp add: same_form_def same_shapes_def server_defs)
  have run: "server_update_model
     \<lparr>model = single_weight (Fin 2), optimizer_state = [scalar (Fin (- 1))]\<rparr>
     [(''w'', scalar (Fin 1))] (single_weight (Fin 5)) (MomentumOptimizer 1 (1 / 2))
   = Inr \<lparr>model = single_weight (Fin (7 / 2)), optimizer_state = [scalar (Fin (- 3 / 2))]\<rparr>"
    by (simp add: server_defs optimizer_defs)
  from server_update_independent_of_initial_values[OF c c' rule form,
      of "\<lparr>model = single_weight (Fin 2), optimizer_state = [scalar (Fin (- 1))]\<rparr>"
         "[(''w'', scalar (Fin 1))]"] form' run
  show ?thesis by simp
qed

lemma assign_values_same: "assign_values tr (map snd tr) = tr"
  by (induction tr) simp_all

lemma scalar_mul_zeros: "scalar_mul (Fin (- 1)) (zeros_like v) = zeros_like v"
  by (simp add: scalar_mul_def zeros_like_def)

lemma zero_pairs:
  "map2 (\<lambda>x v. (scalar_mul (Fin (- 1)) x, v)) (flatten (map_structure zeros_like tr)) (flatten tr)
   = map (\<lambda>v. (zeros_like v, v)) (flatten tr)"
  by (induction tr) (simp_all add: flatten_def map_structure_def scalar_mul_zeros split: prod.splits)

text \<open>
  C4 (amended). Let \<open>server_init\<close> return the state \<open>s\<close>, and let the optimizer's rule,
  given zero gradients for the trainable weights of \<open>s\<close> and the optimizer state of \<open>s\<close>,
  return those weights unchanged. Then \<open>server_update_model\<close> on \<open>s\<close> with the delta
  whose every leaf is zero returns a state whose model is the model of \<open>s\<close>. The condition
  on the rule is needed: the module hands the zero gradient to whatever rule it is given.
\<close>

theorem zero_delta_keeps_model:
  assumes init: "server_init model_fn optimizer_fn = Inr s"
    and neutral: "apply_gradients optimizer_fn
        (map (\<lambda>v. (zeros_like v, v)) (flatten (trainable (model s)))) (optimizer_state s)
      = Inr (flatten (trainable (model s)), optimizer_vars)"
  shows "server_update_model s (map_structure zeros_like (trainable (model s))) model_fn optimizer_fn
      = Inr \<lparr>model = model s, optimizer_state = optimizer_vars\<rparr>"
proof -
  from init have created: "create_optimizer_and_server_state model_fn optimizer_fn = Inr s"
    by (simp add: server_init_def)
  have "apply_delta optimizer_fn (map_structure zeros_like (trainable (model s))) s
      = Inr \<lparr>model = model s, optimizer_state = optimizer_vars\<rparr>"
    unfolding apply_delta_def Let_def zero_pairs
    using neutral by (simp add: zeros_structure flatten_def assign_values_same)
  then show ?thesis
    by (simp add: server_update_model_eq[OF created] same_form_refl same_form_structure)
qed

text \<open>
  An instance with the momentum rule, whose accumulator is zero after \<open>server_init\<close>.
\<close>

theorem zero_delta_keeps_model_witness:
  "server_init (single_weight (Fin 1)) (MomentumOptimizer 1 (1 / 2))
     = Inr \<lparr>model = single_weight (Fin 1), optimizer_state = [scalar (Fin 0)]\<rparr> \<and>
   server_update_model \<lparr>model = single_weight (Fin 1), optimizer_state = [scalar (Fin 0)]\<rparr>
       [(''w'', scalar (Fin 0))] (single_weight (Fin 1)) (MomentumOptimizer 1 (1 / 2))
     = Inr \<lparr>model = single_weight (Fin 1), optimizer_state = [scalar (Fin 0)]\<rparr>"
proof -
  let ?s = "\<lparr>model = single_weight (Fin 1), optimizer_state = [scalar (Fin 0)]\<rparr>"
  have init: "server_init (single_weight (Fin 1)) (MomentumOptimizer 1 (1 / 2)) = Inr ?s"
    by (simp add: server_defs optimizer_defs)
  have neutral: "apply_gradients (MomentumOptimizer 1 (1 / 2))
        (map (\<lambda>v. (zeros_like v, v)) (flatten (trainable (model ?s)))) (optimizer_state ?s)
      = Inr (flatten (trainable (model ?s)), [scalar (Fin 0)])"
    by (simp add: server_defs optimizer_defs)
  from zero_delta_keeps_model[OF init neutral] init
  show ?thesis
    by (simp add: map_structure_def zeros_like_def single_weight_def scalar_def)
qed

text \<open>
  C4 as stated, for any optimizer, fails: proximal gradient descent with an L2 strength
  shrinks a weight even at a zero gradient. From the factory weight 1 (learning rate 1,
  L2 strength 1) the dry run of \<open>server_init\<close> leaves 1/2, and the update with the zero
  delta returns 1/4.
\<close>

theorem zero_delta_moves_model_counterexample:
  "server_init (single_weight (Fin 1)) (ProximalGradientDescentOptimizer 1 1)
     = Inr \<lparr>model = single_weight (Fin (1 / 2)), optimizer_state = []\<rparr> \<and>
   server_update_model \<lparr>model = single_weight (Fin (1 / 2)), optimizer_state = []\<rparr>
       [(''w'', scalar (Fin 0))] (single_weight (Fin 1)) (ProximalGradientDescentOptimizer 1 1)
     = Inr \<lparr>model = single_weight (Fin (1 / 4)), optimizer_state = []\<rparr> \<and>
   single_weight (Fin (1 / 4)) \<noteq> single_weight (Fin (1 / 2))"
  by (simp add: server_defs optimizer_defs)

subsection \<open>The reduction over the dataset\<close>

lemma reduce_fn_frame:
  assumes "reduce_fn d batch self = Inr (d', self')"
  shows "d' = d" and "self_model self' = self_model self"
    and "self_client_weight_fn self' = self_client_weight_fn self"
  using assms by (auto simp: reduce_fn_def split: sum.splits prod.splits list.splits)

lemma dataset_reduce_frame:
  assumes "dataset_reduce dataset d reduce_fn self = Inr (d', self')"
  shows "d' = d \<and> self_model self' = self_model self \<and>
         self_client_weight_fn self' = self_client_weight_fn self"
  using assms
proof (induction dataset arbitrary: d self)
  case Nil
  then show ?case by simp
next
  case (Cons batch dataset)
  then obtain d1 self1 where step: "reduce_fn d batch self = Inr (d1, self1)"
    and rest: "dataset_reduce dataset d1 reduce_fn self1 = Inr (d', self')"
    by (auto split: sum.splits prod.splits)
  from Cons.IH[OF rest] reduce_fn_frame[OF step] show ?case by simp
qed

lemma dataset_reduce_trains:
  assumes "dataset_reduce dataset d reduce_fn self = Inr (d', self')"
  shows "train_in_order (self_model self) dataset (self_model_vars self) = Inr (self_model_vars self')"
  using assms
proof (induction dataset arbitrary: d self)
  case Nil
  then show ?case by simp
next
  case (Cons batch dataset)
  then obtain d1 self1 where step: "reduce_fn d batch self = Inr (d1, self1)"
    and rest: "dataset_reduce dataset d1 reduce_fn self1 = Inr (d', self')"
    by (auto split: sum.splits prod.splits)
  from step obtain outp where
    "train_on_batch (self_model self) batch (self_model_vars self) = Inr (outp, self_model_vars self1)"
    by (auto simp: reduce_fn_def split: sum.splits prod.splits list.splits)
  with Cons.IH[OF rest] reduce_fn_frame(2)[OF step] show ?case by simp
qed

lemma dataset_reduce_eq:
  assumes "reports_batch_size (self_model self) batch_size"
  shows "dataset_reduce dataset d reduce_fn self =
     (case train_in_order (self_model self) dataset (self_model_vars self) of
        Inl e \<Rightarrow> Inl e
      | Inr vars \<Rightarrow>
          Inr (d, self\<lparr>self_model_vars := vars,
                       self_num_examples :=
                         self_num_examples self + of_nat (sum_list (map batch_size dataset))\<rparr>))"
  using assms
proof (induction dataset arbitrary: self)
  case Nil
  then show ?case by simp
next
  case (Cons batch dataset)
  show ?case
  proof (cases "train_on_batch (self_model self) batch (self_model_vars self)")
    case (Inl e)
    then show ?thesis by (simp add: reduce_fn_def)
  next
    case (Inr r)
    obtain outp vars where r: "r = (outp, vars)" by (cases r)
    with Inr Cons.prems obtain rest where sh: "shape (predictions outp) = batch_size batch # rest"
      unfolding reports_batch_size_def by blast
    let ?self1 = "self\<lparr>self_model_vars := vars,
        self_num_examples := self_num_examples self + of_nat (batch_size batch)\<rparr>"
    have step: "reduce_fn d batch self = Inr (d, ?self1)"
      using Inr r sh by (simp add: reduce_fn_def)
    have "reports_batch_size (self_model ?self1) batch_size"
      using Cons.prems by simp
    from Cons.IH[OF this] step Inr r show ?thesis
      by (simp add: add.assoc split: sum.splits)
  qed
qed


text \<open>An \<^verbatim>\<open>int32\<close> holds a count below \<open>2 ^ 31\<close> exactly.\<close>

lemma sint_of_nat_small: "n < 2 ^ 31 \<Longrightarrow> sint (of_nat n :: 32 word) = int n"
  by (simp add: signed_of_nat signed_take_bit_int_eq_self)

lemmas client_defs =
  ClientFedAvg_call_def ClientFedAvg_init_def summing_client_def reduce_fn_def summing_model_def
  add_examples_def assign_weights_def assign_odict_def map_structure2_def tf_subtract_def
  tf_assign_def zero_all_if_any_non_finite_def all_finite_def same_structure_weights_def
  same_structure_def map_structure_def flatten_def zeros_like_def bind_err_def tf_cast_float_def
  fl_sub_def scalar_def single_weight_def

subsection \<open>The client update\<close>

text \<open>
  C1. Let the assignment of the initial weights, the reduction over the dataset and the
  subtraction go through, and let \<open>delta\<close> be the computed difference. Then \<open>__call__\<close>
  returns an output. If some element of some leaf of \<open>delta\<close> is NaN or infinite, every
  leaf of the returned delta is the zero tensor of the shape of that leaf, the flag is
  set and the weight is 0, whatever weight function the object holds. If every element
  is finite, the returned delta is \<open>delta\<close>, the flag is clear and the weight is the value
  of the weight function. The zeroing itself is \<open>zero_all_if_any_non_finite\<close>, modelled
  from the spec; the choice of the weight is the \<^verbatim>\<open>tf.cond\<close> of the module.
\<close>

theorem non_finite_guard:
  assumes assigned: "assign_weights (weights (self_model_vars self)) initial_weights = Inr w"
    and trained: "dataset_reduce dataset (Fin 0) reduce_fn
        (self\<lparr>self_model_vars := (self_model_vars self)\<lparr>weights := w\<rparr>\<rparr>) = Inr (dummy_output, self')"
    and subtracted: "map_structure2 tf_subtract
        (trainable (weights (self_model_vars self'))) (trainable initial_weights) = Inr delta"
  shows "\<exists>out. ClientFedAvg_call self dataset initial_weights = Inr (out, self') \<and>
     (if all_finite delta
      then weights_delta out = delta \<and> has_non_finite_delta (stats out) = 0 \<and>
           weight out = self_client_weight_fn self (self_num_examples self')
                          (aggregated_outputs (self_model self) (self_model_vars self'))
      else weights_delta out = map_structure zeros_like delta \<and>
           has_non_finite_delta (stats out) = 1 \<and> weight out = Fin 0)"
proof -
  from dataset_reduce_frame[OF trained]
  have same: "self_model self' = self_model self"
    "self_client_weight_fn self' = self_client_weight_fn self"
    by simp_all
  show ?thesis
    unfolding ClientFedAvg_call_def
    using assigned trained subtracted same
    by (simp add: zero_all_if_any_non_finite_def Let_def)
qed

text \<open>
  Two instances with a custom weight function that returns 5. In the first the leaf \<open>b\<close>
  starts as NaN, so its difference is NaN while the difference of \<open>w\<close> is 2: both leaves
  come back as zero, with the weight 0. In the second every difference is finite: the
  delta comes back as it is, with the weight 5.
\<close>

theorem non_finite_guard_witness:
  "map_sum id fst
     (ClientFedAvg_call
        (ClientFedAvg_init summing_model
           \<lparr>weights = \<lparr>trainable = [(''w'', scalar (Fin 0)), (''b'', scalar (Fin 0))], non_trainable = []\<rparr>,
            local_variables = []\<rparr>
           (Some (\<lambda>aggregated. Fin 5)))
        [[Fin 2]]
        \<lparr>trainable = [(''w'', scalar (Fin 1)), (''b'', scalar NaN)], non_trainable = []\<rparr>)
   = Inr \<lparr>weights_delta = [(''w'', scalar (Fin 0)), (''b'', scalar (Fin 0))],
          weight = Fin 0,
          aggregated_model_outputs = [[Fin 2]],
          stats = \<lparr>num_examples = 1, has_non_finite_delta = 1, workaround = Fin 0\<rparr>\<rparr> \<and>
   map_structure2 tf_subtract
     [(''w'', scalar (Fin 3)), (''b'', scalar NaN)] [(''w'', scalar (Fin 1)), (''b'', scalar NaN)]
   = Inr [(''w'', scalar (Fin 2)), (''b'', scalar NaN)] \<and>
   map_sum id fst
     (ClientFedAvg_call
        (ClientFedAvg_init summing_model
           \<lparr>weights = \<lparr>trainable = [(''w'', scalar (Fin 0)), (''b'', scalar (Fin 0))], non_trainable = []\<rparr>,
            local_variables = []\<rparr>
           (Some (\<lambda>aggregated. Fin 5)))
        [[Fin 2]]
        \<lparr>trainable = [(''w'', scalar (Fin 1)), (''b'', scalar (Fin 4))], non_trainable = []\<rparr>)
   = Inr \<lparr>weights_delta = [(''w'', scalar (Fin 2)), (''b'', scalar (Fin 2))],
          weight = Fin 5,
          aggregated_model_outputs = [[Fin 2]],
          stats = \<lparr>num_examples = 1, has_non_finite_delta = 0, workaround = Fin 0\<rparr>\<rparr>"
proof -
  let ?self = "ClientFedAvg_init summing_model
           \<lparr>weights = \<lparr>trainable = [(''w'', scalar (Fin 0)), (''b'', scalar (Fin 0))], non_trainable = []\<rparr>,
            local_variables = []\<rparr>
           (Some (\<lambda>aggregated. Fin 5))"
  let ?w = "\<lparr>trainable = [(''w'', scalar (Fin 1)), (''b'', scalar NaN)], non_trainable = []\<rparr>"
  let ?self' = "?self\<lparr>self_model_vars :=
        \<lparr>weights = \<lparr>trainable = [(''w'', scalar (Fin 3)), (''b'', scalar NaN)], non_trainable = []\<rparr>,
         local_variables = [[Fin 2]]\<rparr>,
      self_num_examples := 1\<rparr>"
  have assigned: "assign_weights (weights (self_model_vars ?self)) ?w = Inr ?w"
    by (simp add: client_defs)
  have trained: "dataset_reduce [[Fin 2]] (Fin 0) reduce_fn
        (?self\<lparr>self_model_vars := (self_model_vars ?self)\<lparr>weights := ?w\<rparr>\<rparr>) = Inr (Fin 0, ?self')"
    by (simp add: client_defs)
  have subtracted: "map_structure2 tf_subtract
        (trainable (weights (self_model_vars ?self'))) (trainable ?w)
      = Inr [(''w'', scalar (Fin 2)), (''b'', scalar NaN)]"
    by (simp add: client_defs)
  let ?v = "\<lparr>trainable = [(''w'', scalar (Fin 1)), (''b'', scalar (Fin 4))], non_trainable = []\<rparr>"
  let ?self'' = "?self\<lparr>self_model_vars :=
        \<lparr>weights = \<lparr>trainable = [(''w'', scalar (Fin 3)), (''b'', scalar (Fin 6))], non_trainable = []\<rparr>,
         local_variables = [[Fin 2]]\<rparr>,
      self_num_examples := 1\<rparr>"
  have assigned': "assign_weights (weights (self_model_vars ?self)) ?v = Inr ?v"
    by (simp add: client_defs)
  have trained': "dataset_reduce [[Fin 2]] (Fin 0) reduce_fn
        (?self\<lparr>self_model_vars := (self_model_vars ?self)\<lparr>weights := ?v\<rparr>\<rparr>) = Inr (Fin 0, ?self'')"
    by (simp add: client_defs)
  have subtracted': "map_structure2 tf_subtract
        (trainable (weights (self_model_vars ?self''))) (trainable ?v)
      = Inr [(''w'', scalar (Fin 2)), (''b'', scalar (Fin 2))]"
    by (simp add: client_defs)
  from non_finite_guard[OF assigned trained subtracted]
    non_finite_guard[OF assigned' trained' subtracted'] subtracted
  show ?thesis
    by (auto simp: client_defs)
qed

text \<open>
  C6 (amended). For a model that reports the batch size, a call that returns gives as
  \<open>num_examples\<close> the content of the counter \<open>_num_examples\<close> at entry plus the sum of the
  batch sizes of the dataset, in \<^verbatim>\<open>int32\<close> arithmetic, and leaves that number in the
  counter. The counter is set to 0 by \<open>__init__\<close> only, so at the first call of an object,
  and for fewer than \<open>2 ^ 31\<close> examples, \<open>num_examples\<close> is exactly the sum of the batch
  sizes.
\<close>

theorem num_examples_accumulates:
  assumes call: "ClientFedAvg_call self dataset initial_weights = Inr (out, self')"
    and contract: "reports_batch_size (self_model self) batch_size"
  shows "num_examples (stats out) =
           self_num_examples self + of_nat (sum_list (map batch_size dataset)) \<and>
         self_num_examples self' = num_examples (stats out) \<and>
         (self_num_examples self = 0 \<and> sum_list (map batch_size dataset) < 2 ^ 31 \<longrightarrow>
            sint (num_examples (stats out)) = int (sum_list (map batch_size dataset)))"
proof -
  from call obtain w dummy_output where
    assigned: "assign_weights (weights (self_model_vars self)) initial_weights = Inr w"
    and trained: "dataset_reduce dataset (Fin 0) reduce_fn
        (self\<lparr>self_model_vars := (self_model_vars self)\<lparr>weights := w\<rparr>\<rparr>) = Inr (dummy_output, self')"
    and counted: "num_examples (stats out) = self_num_examples self'"
    unfolding ClientFedAvg_call_def
    by (auto simp: Let_def split: sum.splits prod.splits)
  let ?self1 = "self\<lparr>self_model_vars := (self_model_vars self)\<lparr>weights := w\<rparr>\<rparr>"
  have "reports_batch_size (self_model ?self1) batch_size"
    using contract by simp
  from trained[unfolded dataset_reduce_eq[OF this]]
  have "self_num_examples self' =
      self_num_examples self + of_nat (sum_list (map batch_size dataset))"
    by (auto split: sum.splits)
  with counted show ?thesis
    by (simp add: sint_of_nat_small)
qed


text \<open>The instance model reports the length of the batch.\<close>

lemma summing_model_contract: "reports_batch_size summing_model length"
  by (auto simp: reports_batch_size_def summing_model_def)

text \<open>An instance: the first call of a fresh object, on batches of 2 and 1 examples.\<close>

theorem num_examples_accumulates_witness:
  "ClientFedAvg_call (summing_client (Fin 0)) [[Fin 1, Fin 2], [Fin 3]] (single_weight (Fin 1))
     = Inr (\<lparr>weights_delta = [(''w'', scalar (Fin 6))], weight = Fin 3,
             aggregated_model_outputs = [[Fin 1, Fin 2], [Fin 3]],
             stats = \<lparr>num_examples = 3, has_non_finite_delta = 0, workaround = Fin 0\<rparr>\<rparr>,
            (summing_client (Fin 0))\<lparr>self_model_vars :=
                \<lparr>weights = single_weight (Fin 7), local_variables = [[Fin 1, Fin 2], [Fin 3]]\<rparr>,
              self_num_examples := 3\<rparr>) \<and>
   reports_batch_size summing_model length \<and>
   self_num_examples (summing_client (Fin 0)) = 0 \<and>
   sint (3 :: 32 word) = int (sum_list (map length [[Fin 1, Fin 2], [Fin 3 :: tfloat]]))"
proof -
  have call: "ClientFedAvg_call (summing_client (Fin 0)) [[Fin 1, Fin 2], [Fin 3]] (single_weight (Fin 1))
     = Inr (\<lparr>weights_delta = [(''w'', scalar (Fin 6))], weight = Fin 3,
             aggregated_model_outputs = [[Fin 1, Fin 2], [Fin 3]],
             stats = \<lparr>num_examples = 3, has_non_finite_delta = 0, workaround = Fin 0\<rparr>\<rparr>,
            (summing_client (Fin 0))\<lparr>self_model_vars :=
                \<lparr>weights = single_weight (Fin 7), local_variables = [[Fin 1, Fin 2], [Fin 3]]\<rparr>,
              self_num_examples := 3\<rparr>)"
    by (simp add: client_defs)
  have contract: "reports_batch_size (self_model (summing_client (Fin 0))) length"
    by (simp add: summing_client_def ClientFedAvg_init_def summing_model_contract)
  have fresh: "self_num_examples (summing_client (Fin 0)) = 0"
    by (simp add: summing_client_def ClientFedAvg_init_def)
  from num_examples_accumulates[OF call contract] call fresh summing_model_contract
  show ?thesis by simp
qed

text \<open>
  C6 as stated fails at the second call of the same object: after a call on three
  examples, a call on a dataset of one batch of one example returns \<open>num_examples = 4\<close>
  (and, under the default weight function, the weight 4), not 1.
\<close>

theorem num_examples_second_call_counterexample:
  "ClientFedAvg_call (summing_client (Fin 0)) [[Fin 1, Fin 2], [Fin 3]] (single_weight (Fin 1))
     = Inr (\<lparr>weights_delta = [(''w'', scalar (Fin 6))], weight = Fin 3,
             aggregated_model_outputs = [[Fin 1, Fin 2], [Fin 3]],
             stats = \<lparr>num_examples = 3, has_non_finite_delta = 0, workaround = Fin 0\<rparr>\<rparr>,
            (summing_client (Fin 0))\<lparr>self_model_vars :=
                \<lparr>weights = single_weight (Fin 7), local_variables = [[Fin 1, Fin 2], [Fin 3]]\<rparr>,
              self_num_examples := 3\<rparr>) \<and>
   ClientFedAvg_call
       ((summing_client (Fin 0))\<lparr>self_model_vars :=
           \<lparr>weights = single_weight (Fin 7), local_variables = [[Fin 1, Fin 2], [Fin 3]]\<rparr>,
         self_num_examples := 3\<rparr>)
       [[Fin 5]] (single_weight (Fin 1))
     = Inr (\<lparr>weights_delta = [(''w'', scalar (Fin 5))], weight = Fin 4,
             aggregated_model_outputs = [[Fin 1, Fin 2], [Fin 3], [Fin 5]],
             stats = \<lparr>num_examples = 4, has_non_finite_delta = 0, workaround = Fin 0\<rparr>\<rparr>,
            (summing_client (Fin 0))\<lparr>self_model_vars :=
                \<lparr>weights = single_weight (Fin 6),
                 local_variables = [[Fin 1, Fin 2], [Fin 3], [Fin 5]]\<rparr>,
              self_num_examples := 4\<rparr>) \<and>
   (4 :: 32 word) \<noteq> of_nat (sum_list (map length [[Fin 5 :: tfloat]]))"
  by (simp add: client_defs)

text \<open>
  C7. When \<open>__call__\<close> returns, the variables of the model are those the strict left
  fold \<open>train_in_order\<close> leaves: starting from the initial weights, one training step per
  batch, in the order of the dataset. The delta is computed from these final variables:
  it is the leaf-by-leaf elementwise difference between the final trainable weights and
  the initial trainable weights (which the non-finite guard then returns as it is, or
  zeroed). Conversely, for a model that reports the batch size, when the initial weights
  fit the model, the fold returns and the subtraction goes through, \<open>__call__\<close> returns
  with exactly these variables and this delta.
\<close>

theorem client_update_is_left_fold:
  "(ClientFedAvg_call self dataset initial_weights = Inr (out, self') \<longrightarrow>
      train_in_order (self_model self) dataset
          ((self_model_vars self)\<lparr>weights := initial_weights\<rparr>) = Inr (self_model_vars self') \<and>
      (\<exists>delta.
          map_structure2 tf_subtract (trainable (weights (self_model_vars self')))
              (trainable initial_weights) = Inr delta \<and>
          weights_delta out = (if all_finite delta then delta else map_structure zeros_like delta))) \<and>
   (reports_batch_size (self_model self) batch_size \<and>
    assign_weights (weights (self_model_vars self)) initial_weights = Inr w \<and>
    train_in_order (self_model self) dataset
        ((self_model_vars self)\<lparr>weights := initial_weights\<rparr>) = Inr vars \<and>
    map_structure2 tf_subtract (trainable (weights vars)) (trainable initial_weights) = Inr delta' \<longrightarrow>
      (\<exists>out self'.
          ClientFedAvg_call self dataset initial_weights = Inr (out, self') \<and>
          self_model_vars self' = vars \<and>
          weights_delta out = (if all_finite delta' then delta' else map_structure zeros_like delta')))"
proof (intro conjI impI)
  assume call: "ClientFedAvg_call self dataset initial_weights = Inr (out, self')"
  then obtain w0 dummy_output delta where
    assigned: "assign_weights (weights (self_model_vars self)) initial_weights = Inr w0"
    and trained: "dataset_reduce dataset (Fin 0) reduce_fn
        (self\<lparr>self_model_vars := (self_model_vars self)\<lparr>weights := w0\<rparr>\<rparr>) = Inr (dummy_output, self')"
    and subtracted: "map_structure2 tf_subtract
        (trainable (weights (self_model_vars self'))) (trainable initial_weights) = Inr delta"
    and result: "weights_delta out = fst (zero_all_if_any_non_finite delta)"
    unfolding ClientFedAvg_call_def
    by (auto simp: Let_def split: sum.splits prod.splits)
  from assigned have w0: "w0 = initial_weights"
    by (simp add: assign_weights_eq split: if_splits)
  from dataset_reduce_trains[OF trained] w0
  show "train_in_order (self_model self) dataset
          ((self_model_vars self)\<lparr>weights := initial_weights\<rparr>) = Inr (self_model_vars self')"
    by simp
  from subtracted result
  show "\<exists>delta.
          map_structure2 tf_subtract (trainable (weights (self_model_vars self')))
              (trainable initial_weights) = Inr delta \<and>
          weights_delta out = (if all_finite delta then delta else map_structure zeros_like delta)"
    by (simp add: zero_all_if_any_non_finite_def)
next
  assume h: "reports_batch_size (self_model self) batch_size \<and>
    assign_weights (weights (self_model_vars self)) initial_weights = Inr w \<and>
    train_in_order (self_model self) dataset
        ((self_model_vars self)\<lparr>weights := initial_weights\<rparr>) = Inr vars \<and>
    map_structure2 tf_subtract (trainable (weights vars)) (trainable initial_weights) = Inr delta'"
  then have w: "w = initial_weights"
    by (simp add: assign_weights_eq split: if_splits)
  let ?self1 = "self\<lparr>self_model_vars := (self_model_vars self)\<lparr>weights := w\<rparr>\<rparr>"
  have "reports_batch_size (self_model ?self1) batch_size"
    using h by simp
  from dataset_reduce_eq[OF this, of dataset "Fin 0"] h w
  have trained: "dataset_reduce dataset (Fin 0) reduce_fn ?self1 =
      Inr (Fin 0, ?self1\<lparr>self_model_vars := vars,
         self_num_examples := self_num_examples ?self1 + of_nat (sum_list (map batch_size dataset))\<rparr>)"
    by simp
  show "\<exists>out self'.
          ClientFedAvg_call self dataset initial_weights = Inr (out, self') \<and>
          self_model_vars self' = vars \<and>
          weights_delta out = (if all_finite delta' then delta' else map_structure zeros_like delta')"
    unfolding ClientFedAvg_call_def
    using h trained by (simp add: zero_all_if_any_non_finite_def Let_def)
qed


text \<open>
  An instance: the model logs the batches it is trained on; after the call its log is the
  dataset, batch by batch and in order, and the delta 10 is the final weight 11 minus the
  initial weight 1.
\<close>

theorem client_update_is_left_fold_witness:
  "ClientFedAvg_call (summing_client (Fin 0)) [[Fin 1], [Fin 2, Fin 3], [Fin 4]] (single_weight (Fin 1))
     = Inr (\<lparr>weights_delta = [(''w'', scalar (Fin 10))], weight = Fin 4,
             aggregated_model_outputs = [[Fin 1], [Fin 2, Fin 3], [Fin 4]],
             stats = \<lparr>num_examples = 4, has_non_finite_delta = 0, workaround = Fin 0\<rparr>\<rparr>,
            (summing_client (Fin 0))\<lparr>self_model_vars :=
                \<lparr>weights = single_weight (Fin 11),
                 local_variables = [[Fin 1], [Fin 2, Fin 3], [Fin 4]]\<rparr>,
              self_num_examples := 4\<rparr>) \<and>
   train_in_order summing_model [[Fin 1], [Fin 2, Fin 3], [Fin 4]]
       \<lparr>weights = single_weight (Fin 1), local_variables = []\<rparr>
     = Inr \<lparr>weights = single_weight (Fin 11),
            local_variables = [[Fin 1], [Fin 2, Fin 3], [Fin 4]]\<rparr> \<and>
   map_structure2 tf_subtract (trainable (single_weight (Fin 11))) (trainable (single_weight (Fin 1)))
     = Inr [(''w'', scalar (Fin 10))]"
proof -
  let ?self = "summing_client (Fin 0)"
  let ?dataset = "[[Fin 1], [Fin 2, Fin 3], [Fin 4]]"
  let ?vars = "\<lparr>weights = single_weight (Fin 11),
      local_variables = [[Fin 1], [Fin 2, Fin 3], [Fin 4]]\<rparr>"
  let ?out = "\<lparr>weights_delta = [(''w'', scalar (Fin 10))], weight = Fin 4,
             aggregated_model_outputs = [[Fin 1], [Fin 2, Fin 3], [Fin 4]],
             stats = \<lparr>num_examples = 4, has_non_finite_delta = 0, workaround = Fin 0\<rparr>\<rparr>"
  let ?self' = "?self\<lparr>self_model_vars := ?vars, self_num_examples := 4\<rparr>"
  have call: "ClientFedAvg_call ?self ?dataset (single_weight (Fin 1)) = Inr (?out, ?self')"
    by (simp add: client_defs)
  have sub: "map_structure2 tf_subtract (trainable (weights ?vars))
      (trainable (single_weight (Fin 1))) = Inr [(''w'', scalar (Fin 10))]"
    by (simp add: client_defs)
  note at_input = client_update_is_left_fold
    [of ?self ?dataset "single_weight (Fin 1)" ?out ?self' length "single_weight (Fin 1)" ?vars
        "[(''w'', scalar (Fin 10))]"]
  from at_input[THEN conjunct1, rule_format, OF call]
  have "train_in_order (self_model ?self) ?dataset
      ((self_model_vars ?self)\<lparr>weights := single_weight (Fin 1)\<rparr>) = Inr (self_model_vars ?self')"
    by (rule conjunct1)
  then have fold: "train_in_order (self_model ?self) ?dataset
      ((self_model_vars ?self)\<lparr>weights := single_weight (Fin 1)\<rparr>) = Inr ?vars"
    by simp
  have contract: "reports_batch_size (self_model ?self) length"
    by (simp add: summing_client_def ClientFedAvg_init_def summing_model_contract)
  have assigned: "assign_weights (weights (self_model_vars ?self)) (single_weight (Fin 1))
      = Inr (single_weight (Fin 1))"
    by (simp add: client_defs)
  from at_input[THEN conjunct2, rule_format,
      OF conjI[OF contract conjI[OF assigned conjI[OF fold sub]]]]
  obtain out self' where
    returned: "ClientFedAvg_call ?self ?dataset (single_weight (Fin 1)) = Inr (out, self')"
    and "self_model_vars self' = ?vars"
    by blast
  from fold have "train_in_order summing_model ?dataset
       \<lparr>weights = single_weight (Fin 1), local_variables = []\<rparr> = Inr ?vars"
    by (simp add: summing_client_def ClientFedAvg_init_def)
  with call sub show ?thesis
    by simp
qed

subsection \<open>The difference of weights with themselves\<close>
















end
